theory Spec2Isabelle
  imports Main "HOL-Library.Word" "HOL-Library.Monad_Syntax"
begin

unbundle bit_operations_syntax

section \<open>Temporal dynamic macros: the data model\<close>

text \<open>
  The development follows \<^verbatim>\<open>temporal_dynamic_macro.c\<close>. A recorded event is the struct
  \<^verbatim>\<open>tdm_keypress_t\<close>: a 16-bit keycode, a 32-bit delay in milliseconds and an 8-bit
  flag mask whose lowest bit says whether the key went down.
\<close>

record tdm_keypress_t =
  keycode :: "16 word"
  delay_ms :: "32 word"
  flags :: "8 word"

definition FLAG_pressed :: "8 word" where
  "FLAG_pressed = 1"

text \<open>
  \<^verbatim>\<open>keypress->flags ^= (flag & -is_set) ^ ((keypress->flags) & flag)\<close>. The operands are
  promoted to \<^verbatim>\<open>int\<close>, so the expression is computed on integers (\<open>-is_set\<close> is 0 or -1,
  all bits set) and the result is converted back to \<^verbatim>\<open>uint8_t\<close>.
\<close>

definition set_flag :: "tdm_keypress_t \<Rightarrow> 8 word \<Rightarrow> bool \<Rightarrow> tdm_keypress_t" where
  "set_flag keypress flag b =
     keypress\<lparr>flags := word_of_int
       (uint (flags keypress) XOR
         ((uint flag AND (- of_bool b)) XOR (uint (flags keypress) AND uint flag)))\<rparr>"

definition is_set :: "tdm_keypress_t \<Rightarrow> 8 word \<Rightarrow> bool" where
  "is_set keypress flag = (uint (flags keypress) AND uint flag \<noteq> 0)"

definition clear_flags :: "tdm_keypress_t \<Rightarrow> tdm_keypress_t" where
  "clear_flags keypress = keypress\<lparr>flags := 0\<rparr>"

text \<open>A flag mask with exactly one bit, such as \<^verbatim>\<open>FLAG_pressed\<close> or \<^verbatim>\<open>FLAG_8\<close>.\<close>

definition single_bit :: "8 word \<Rightarrow> bool" where
  "single_bit flag = (flag \<in> set (map (\<lambda>k. push_bit k 1) [0..<8]))"

section \<open>Digits\<close>

text \<open>
  \<^verbatim>\<open>keycode_to_int\<close>: the number row (30..38 are 1..9, 39 is 0) and the number pad
  (89..97 are 1..9, 98 is 0); -1 for every other keycode.
\<close>

definition keycode_to_int :: "16 word \<Rightarrow> int" where
  "keycode_to_int kc =
     (if 30 \<le> uint kc \<and> uint kc \<le> 39 then (if uint kc = 39 then 0 else uint kc - 29)
      else if 89 \<le> uint kc \<and> uint kc \<le> 98 then (if uint kc = 98 then 0 else uint kc - 88)
      else - 1)"


section \<open>Configuration\<close>

text \<open>
  The region capacity \<^verbatim>\<open>TDM_BUFFER_SIZE\<close> is a build-time constant that the header lets
  the user override (50 when not overridden). The keycode constants come from the
  keyboard firmware (\<^verbatim>\<open>quantum.h\<close>), which is not part of the repository: they are
  parameters here, as integers, since C compares them after promoting the keycode.
  A pointer into the macro storage is modelled as the offset, counted in records, from
  \<^verbatim>\<open>&MACRO_buffers[0][0]\<close>; \<open>NULL\<close> is the offset that stands for the null pointer.
\<close>

record tdm_config =
  TDM_BUFFER_SIZE :: int
  NULL :: int
  SAFE_RANGE :: int
  QK_MOMENTARY :: int
  QK_MOMENTARY_MAX :: int
  QK_TO :: int
  QK_TO_MAX :: int
  QK_TOGGLE_LAYER :: int
  QK_TOGGLE_LAYER_MAX :: int
  QK_LAYER_TAP_TOGGLE :: int
  QK_LAYER_TAP_TOGGLE_MAX :: int
  QK_ONE_SHOT_LAYER :: int
  QK_ONE_SHOT_LAYER_MAX :: int
  QK_TRI_LAYER_LOWER :: int
  QK_TRI_LAYER_UPPER :: int
  QK_ONE_SHOT_MOD :: int
  KC_1 :: int
  KC_9 :: int
  KC_0 :: int
  KC_P1 :: int
  KC_P9 :: int
  KC_P0 :: int

definition TDM_NUM_MACROS :: nat where
  "TDM_NUM_MACROS = 2"

definition TDM_SILENT_RECORDED_KEYS :: bool where
  "TDM_SILENT_RECORDED_KEYS = False"

definition TDM_SILENT_INVALID_KEYS :: bool where
  "TDM_SILENT_INVALID_KEYS = True"

definition TDM_DEBOUNCE_DELAY :: "32 word" where
  "TDM_DEBOUNCE_DELAY = 100"

text \<open>The enumeration \<^verbatim>\<open>custom_keycodes\<close> counts up from \<^verbatim>\<open>SAFE_RANGE\<close>.\<close>

definition TURBO :: "tdm_config \<Rightarrow> int" where
  "TURBO K = SAFE_RANGE K"

definition LLOCK :: "tdm_config \<Rightarrow> int" where
  "LLOCK K = SAFE_RANGE K + 1"

definition TDM_RECORD :: "tdm_config \<Rightarrow> int" where
  "TDM_RECORD K = SAFE_RANGE K + 2"

definition TDM_DELAY :: "tdm_config \<Rightarrow> int" where
  "TDM_DELAY K = SAFE_RANGE K + 3"

definition TDM_END :: "tdm_config \<Rightarrow> int" where
  "TDM_END K = SAFE_RANGE K + 4"

definition TDM_PLAY :: "tdm_config \<Rightarrow> int" where
  "TDM_PLAY K = SAFE_RANGE K + 5"

definition TDM_LOOP :: "tdm_config \<Rightarrow> int" where
  "TDM_LOOP K = SAFE_RANGE K + 6"

definition TDM_SELECT :: "tdm_config \<Rightarrow> int" where
  "TDM_SELECT K = SAFE_RANGE K + 7"

section \<open>Event classifier\<close>

definition tdm_is_control_key :: "tdm_config \<Rightarrow> 16 word \<Rightarrow> bool" where
  "tdm_is_control_key K kc =
     (uint kc = TDM_SELECT K \<or> uint kc = TDM_RECORD K \<or> uint kc = TDM_DELAY K \<or>
      uint kc = TDM_END K \<or> uint kc = TDM_PLAY K \<or> uint kc = TDM_LOOP K)"

definition tdm_is_layer_key :: "tdm_config \<Rightarrow> 16 word \<Rightarrow> bool" where
  "tdm_is_layer_key K kc =
     ((uint kc > QK_MOMENTARY K \<and> uint kc < QK_MOMENTARY_MAX K) \<or>
      (uint kc > QK_TO K \<and> uint kc < QK_TO_MAX K) \<or>
      (uint kc > QK_TOGGLE_LAYER K \<and> uint kc < QK_TOGGLE_LAYER_MAX K) \<or>
      (uint kc > QK_LAYER_TAP_TOGGLE K \<and> uint kc < QK_LAYER_TAP_TOGGLE_MAX K) \<or>
      (uint kc > QK_ONE_SHOT_LAYER K \<and> uint kc < QK_ONE_SHOT_LAYER_MAX K) \<or>
      (uint kc > QK_TRI_LAYER_LOWER K \<and> uint kc < QK_TRI_LAYER_UPPER K) \<or>
      uint kc = QK_ONE_SHOT_MOD K)"

definition tdm_is_valid_number :: "tdm_config \<Rightarrow> 16 word \<Rightarrow> bool" where
  "tdm_is_valid_number K kc =
     ((uint kc \<ge> KC_1 K \<and> uint kc \<le> KC_9 K) \<or> uint kc = KC_0 K \<or>
      (uint kc \<ge> KC_P1 K \<and> uint kc \<le> KC_P9 K) \<or> uint kc = KC_P0 K)"

text \<open>The weak default of the user hook accepts every key.\<close>

definition tdm_is_valid_key_user :: "16 word \<Rightarrow> bool" where
  "tdm_is_valid_key_user kc = True"

definition tdm_is_valid_key :: "tdm_config \<Rightarrow> 16 word \<Rightarrow> bool" where
  "tdm_is_valid_key K kc = (\<not> tdm_is_control_key K kc \<and> tdm_is_valid_key_user kc)"

section \<open>The state of the module\<close>

datatype State =
  STATE_recording | STATE_recording_delay | STATE_playing | STATE_looping |
  STATE_selecting | STATE_idle

datatype sink_call =
  Register_code "16 word" | Unregister_code "16 word" | Clear_keyboard | Layer_clear

datatype DeferCallback = Tdm_delay_callback | Tdm_loop_callback

text \<open>
  The static variables of the file, followed by what the module does to its
  collaborators: \<open>sink\<close> lists the calls made to the key-emission sink, \<open>diag\<close> the
  invalid-transition diagnostics (the other \<^verbatim>\<open>uprintf\<close> output and the LED feedback are not
  modelled), \<open>deferred\<close> the executors pending in the scheduler and \<open>next_token\<close> the
  token the scheduler hands out next. \<open>MACRO_buffers\<close> maps an offset to the record
  stored there; the array itself is the offsets from 0 up to \<^verbatim>\<open>TDM_BUFFER_SIZE\<close> - 1, and
  the map is total so that an access outside the array can be followed. The model is
  exact for accesses inside the array; what a store outside it hits in the real image is
  not modelled.
\<close>

record tdm_state =
  MACRO_buffers :: "int \<Rightarrow> tdm_keypress_t"
  MACRO_ends :: "nat \<Rightarrow> int"
  MACRO_id :: nat
  MACRO_start :: int
  MACRO_iterator :: int
  MACRO_end :: int
  MACRO_direction :: int
  MACRO_delay_next_key_ms :: "32 word"
  MACRO_current_state :: State
  MACRO_selection :: "8 word"
  play_finished :: bool
  got_first_keydown :: bool
  play_token :: nat
  delay_token :: nat
  sink :: "sink_call list"
  diag :: "(State \<times> State) list"
  deferred :: "(nat \<times> 32 word \<times> DeferCallback) list"
  next_token :: nat

definition INVALID_DEFERRED_TOKEN :: nat where
  "INVALID_DEFERRED_TOKEN = 0"

definition in_region :: "tdm_config \<Rightarrow> int \<Rightarrow> bool" where
  "in_region K p = (0 \<le> p \<and> p < TDM_BUFFER_SIZE K)"

subsection \<open>Collaborators\<close>

definition clear_keyboard :: "tdm_state \<Rightarrow> tdm_state" where
  "clear_keyboard s = s\<lparr>sink := sink s @ [Clear_keyboard]\<rparr>"

definition layer_clear :: "tdm_state \<Rightarrow> tdm_state" where
  "layer_clear s = s\<lparr>sink := sink s @ [Layer_clear]\<rparr>"

definition register_code :: "16 word \<Rightarrow> tdm_state \<Rightarrow> tdm_state" where
  "register_code kc s = s\<lparr>sink := sink s @ [Register_code kc]\<rparr>"

definition unregister_code :: "16 word \<Rightarrow> tdm_state \<Rightarrow> tdm_state" where
  "unregister_code kc s = s\<lparr>sink := sink s @ [Unregister_code kc]\<rparr>"

text \<open>
  Modelled from the spec: the delayed-callback scheduler (\<^verbatim>\<open>defer_exec\<close>,
  \<^verbatim>\<open>cancel_deferred_exec\<close>) belongs to the firmware. It is single-shot and reliable:
  registering hands out a fresh valid token, cancelling a token that is not pending does
  nothing, and a callback that returns a non-zero interval is scheduled again under its
  token while one that returns 0 is dropped.
\<close>

definition defer_exec :: "32 word \<Rightarrow> DeferCallback \<Rightarrow> tdm_state \<Rightarrow> nat \<times> tdm_state" where
  "defer_exec delay callback s =
     (next_token s,
      s\<lparr>deferred := deferred s @ [(next_token s, delay, callback)],
        next_token := next_token s + 1\<rparr>)"

definition cancel_deferred_exec :: "nat \<Rightarrow> tdm_state \<Rightarrow> tdm_state" where
  "cancel_deferred_exec token s = s\<lparr>deferred := filter (\<lambda>e. fst e \<noteq> token) (deferred s)\<rparr>"


section \<open>Selection\<close>

definition tdm_select_start :: "tdm_state \<Rightarrow> tdm_state" where
  "tdm_select_start s = s\<lparr>MACRO_selection := 0\<rparr>"

definition tdm_select_macro :: "16 word \<Rightarrow> tdm_state \<Rightarrow> tdm_state" where
  "tdm_select_macro kc s =
     (if unat (MACRO_selection s) \<ge> TDM_NUM_MACROS then s
      else if keycode_to_int kc = - 1 then s
      else s\<lparr>MACRO_selection := MACRO_selection s * 10 + word_of_int (keycode_to_int kc)\<rparr>)"

definition tdm_select_end :: "tdm_state \<Rightarrow> tdm_state" where
  "tdm_select_end s =
     (let s1 = layer_clear (clear_keyboard s)
      in if unat (MACRO_selection s1) \<ge> TDM_NUM_MACROS
         then s1\<lparr>MACRO_id := TDM_NUM_MACROS - 1\<rparr>
         else s1\<lparr>MACRO_id := unat (MACRO_selection s1)\<rparr>)"

section \<open>The dual-growth buffer store\<close>

text \<open>The convenience macros of the source, on offsets.\<close>

definition DIRECTION :: "nat \<Rightarrow> int" where
  "DIRECTION M_id = int (M_id mod 2) * (- 2) + 1"

definition NEIGHBOR :: "nat \<Rightarrow> nat" where
  "NEIGHBOR x = x + 1 - 2 * (x mod 2)"

definition TDM_BUFFER_START :: "tdm_config \<Rightarrow> nat \<Rightarrow> int" where
  "TDM_BUFFER_START K M_id = int (M_id div 2) * TDM_BUFFER_SIZE K"

definition TDM_CURRENT_START :: "tdm_config \<Rightarrow> nat \<Rightarrow> int" where
  "TDM_CURRENT_START K M_id = TDM_BUFFER_START K M_id + int (M_id mod 2) * TDM_BUFFER_SIZE K"

definition reset_state :: "tdm_config \<Rightarrow> tdm_state \<Rightarrow> tdm_state" where
  "reset_state K s =
     (let s1 = s\<lparr>MACRO_ends :=
                 fold (\<lambda>i ends. ends(i := TDM_CURRENT_START K i)) [0..<TDM_NUM_MACROS] (MACRO_ends s)\<rparr>;
          s2 = s1\<lparr>MACRO_start := 0\<rparr>;
          s3 = s2\<lparr>MACRO_iterator := NULL K\<rparr>
      in s3\<lparr>MACRO_end := MACRO_ends s3 0\<rparr>)"

definition tdm_reset_iterator :: "tdm_config \<Rightarrow> tdm_state \<Rightarrow> tdm_state" where
  "tdm_reset_iterator K s =
     s\<lparr>MACRO_direction := DIRECTION (MACRO_id s),
       MACRO_start := TDM_CURRENT_START K (MACRO_id s),
       MACRO_iterator := TDM_CURRENT_START K (MACRO_id s),
       MACRO_end := MACRO_ends s (MACRO_id s),
       play_finished := False\<rparr>"

text \<open>
  \<^verbatim>\<open>print_macros\<close> is a debugging aid, but it assigns the end of the current slot
  before it prints; the assignment is kept, the printing is not.
\<close>

definition print_macros :: "tdm_state \<Rightarrow> tdm_state" where
  "print_macros s = s\<lparr>MACRO_ends := (MACRO_ends s)(MACRO_id s := MACRO_iterator s)\<rparr>"

text \<open>The weak defaults of the user hooks; blinking is not modelled.\<close>

definition tdm_record_start_user :: "tdm_state \<Rightarrow> tdm_state" where
  "tdm_record_start_user s = s"

definition tdm_record_key_user :: "tdm_state \<Rightarrow> tdm_state" where
  "tdm_record_key_user s = print_macros s"

definition tdm_record_end_user :: "tdm_state \<Rightarrow> tdm_state" where
  "tdm_record_end_user s = print_macros s"

definition tdm_play_user :: "tdm_state \<Rightarrow> tdm_state" where
  "tdm_play_user s = s"

definition tdm_play_stop_user :: "tdm_state \<Rightarrow> tdm_state" where
  "tdm_play_stop_user s = s"

definition tdm_init_user :: "tdm_state \<Rightarrow> tdm_state" where
  "tdm_init_user s = s"

section \<open>Recording\<close>

definition tdm_record_start :: "tdm_config \<Rightarrow> tdm_state \<Rightarrow> tdm_state" where
  "tdm_record_start K s =
     tdm_reset_iterator K (layer_clear (clear_keyboard (tdm_record_start_user s)))"

text \<open>
  The trimming loop of \<^verbatim>\<open>tdm_record_end\<close>. The loops of the file walk a pointer until it
  meets another one, so nothing in them bounds the number of rounds: each is a partial
  function, and \<open>None\<close> stands for a loop that does not return.
\<close>

definition record_end_cond :: "tdm_config \<Rightarrow> tdm_state \<Rightarrow> bool" where
  "record_end_cond K s =
     (MACRO_iterator s \<noteq> MACRO_start s \<and>
      (\<not> is_set (MACRO_buffers s (MACRO_iterator s - MACRO_direction s)) FLAG_pressed \<or>
       tdm_is_control_key K (keycode (MACRO_buffers s (MACRO_iterator s - MACRO_direction s))) \<or>
       tdm_is_layer_key K (keycode (MACRO_buffers s (MACRO_iterator s - MACRO_direction s)))))"

partial_function (option) record_end_loop :: "tdm_config \<Rightarrow> tdm_state \<Rightarrow> tdm_state option" where
  "record_end_loop K s =
     (if record_end_cond K s
      then record_end_loop K (s\<lparr>MACRO_iterator := MACRO_iterator s - MACRO_direction s\<rparr>)
      else Some s)"

definition tdm_record_end :: "tdm_config \<Rightarrow> tdm_state \<Rightarrow> tdm_state option" where
  "tdm_record_end K s =
     do {
       s1 \<leftarrow> record_end_loop K (print_macros s);
       Some (tdm_record_end_user (s1\<lparr>MACRO_ends := (MACRO_ends s1)(MACRO_id s1 := MACRO_iterator s1)\<rparr>))
     }"

text \<open>
  \<^verbatim>\<open>tdm_record_key\<close>. \<open>got_first_keydown\<close> is the function's static local. \<open>upd_record\<close>
  is an assignment through a record pointer.
\<close>

definition upd_record :: "int \<Rightarrow> (tdm_keypress_t \<Rightarrow> tdm_keypress_t) \<Rightarrow> tdm_state \<Rightarrow> tdm_state" where
  "upd_record p f s = s\<lparr>MACRO_buffers := (MACRO_buffers s)(p := f (MACRO_buffers s p))\<rparr>"

definition tdm_record_key :: "tdm_config \<Rightarrow> 16 word \<Rightarrow> bool \<Rightarrow> tdm_state \<Rightarrow> tdm_state option" where
  "tdm_record_key K kc pressed s =
     (if \<not> pressed \<and> \<not> got_first_keydown s then Some s
      else
        let s1 = s\<lparr>got_first_keydown := True\<rparr>
        in if MACRO_iterator s1 - MACRO_direction s1 = MACRO_ends s1 (NEIGHBOR (MACRO_id s1))
           then tdm_record_end K s1
           else
             let s2 = upd_record (MACRO_iterator s1) (\<lambda>r. r\<lparr>keycode := kc\<rparr>) s1;
                 s3 = upd_record (MACRO_iterator s2) (\<lambda>r. set_flag r FLAG_pressed pressed) s2;
                 s4 = s3\<lparr>MACRO_iterator := MACRO_iterator s3 + MACRO_direction s3\<rparr>;
                 s5 = upd_record (MACRO_iterator s4) (\<lambda>r. r\<lparr>delay_ms := 0\<rparr>) s4;
                 s6 = upd_record (MACRO_iterator s5) clear_flags s5
             in Some (tdm_record_key_user s6))"

section \<open>Delay entry\<close>

definition record_delay_start_cond :: "tdm_config \<Rightarrow> tdm_state \<Rightarrow> bool" where
  "record_delay_start_cond K s =
     (MACRO_iterator s \<noteq> MACRO_start s \<and>
      tdm_is_layer_key K (keycode (MACRO_buffers s (MACRO_iterator s - MACRO_direction s))))"

partial_function (option) record_delay_start_loop :: "tdm_config \<Rightarrow> tdm_state \<Rightarrow> tdm_state option" where
  "record_delay_start_loop K s =
     (if record_delay_start_cond K s
      then record_delay_start_loop K (s\<lparr>MACRO_iterator := MACRO_iterator s - MACRO_direction s\<rparr>)
      else Some s)"

definition tdm_record_delay_start :: "tdm_config \<Rightarrow> tdm_state \<Rightarrow> tdm_state option" where
  "tdm_record_delay_start K s = record_delay_start_loop K (s\<lparr>MACRO_delay_next_key_ms := 0\<rparr>)"

text \<open>
  \<^verbatim>\<open>tdm_record_delay\<close>: the accumulator is a \<^verbatim>\<open>uint32_t\<close>, so the multiplication and the
  addition are those of 32-bit words.
\<close>

definition tdm_record_delay :: "16 word \<Rightarrow> tdm_state \<Rightarrow> tdm_state" where
  "tdm_record_delay kc s =
     (if MACRO_delay_next_key_ms s > 7200000 then s
      else if keycode_to_int kc = - 1 then s
      else s\<lparr>MACRO_delay_next_key_ms :=
               MACRO_delay_next_key_ms s * 10 + word_of_int (keycode_to_int kc)\<rparr>)"

definition tdm_record_delay_end :: "tdm_state \<Rightarrow> tdm_state" where
  "tdm_record_delay_end s =
     (let s1 = print_macros s;
          lookback_iterator = MACRO_iterator s1;
          s2 = upd_record lookback_iterator (\<lambda>r. r\<lparr>delay_ms := MACRO_delay_next_key_ms s1\<rparr>) s1
      in s2\<lparr>MACRO_delay_next_key_ms := 0\<rparr>)"


section \<open>Playback\<close>

definition tdm_clear_tokens :: "tdm_state \<Rightarrow> tdm_state" where
  "tdm_clear_tokens s =
     (let s1 = (if play_token s \<noteq> INVALID_DEFERRED_TOKEN
                then (cancel_deferred_exec (play_token s) s)\<lparr>play_token := INVALID_DEFERRED_TOKEN\<rparr>
                else s)
      in if delay_token s1 \<noteq> INVALID_DEFERRED_TOKEN
         then (cancel_deferred_exec (delay_token s1) s1)\<lparr>delay_token := INVALID_DEFERRED_TOKEN\<rparr>
         else s1)"

definition tdm_play_key :: "tdm_keypress_t \<Rightarrow> tdm_state \<Rightarrow> tdm_state" where
  "tdm_play_key keypress s =
     (if is_set keypress FLAG_pressed then register_code (keycode keypress) s
      else if \<not> is_set keypress FLAG_pressed then unregister_code (keycode keypress) s
      else s)"

text \<open>
  \<^verbatim>\<open>tdm_play\<close>: one round of the loop plays the record under the iterator and advances;
  a delay on the record reached registers the continuation and returns.
\<close>

definition play_pause :: "tdm_state \<Rightarrow> tdm_state" where
  "play_pause s =
     (let tdm_continue = (if MACRO_current_state s = STATE_looping
                          then Tdm_loop_callback else Tdm_delay_callback);
          (token, s1) = defer_exec (delay_ms (MACRO_buffers s (MACRO_iterator s))) tdm_continue s
      in s1\<lparr>delay_token := token\<rparr>)"

definition play_advance :: "tdm_state \<Rightarrow> tdm_state" where
  "play_advance s =
     (let s1 = tdm_play_key (MACRO_buffers s (MACRO_iterator s)) s
      in s1\<lparr>MACRO_iterator := MACRO_iterator s1 + MACRO_direction s1\<rparr>)"

partial_function (option) tdm_play :: "tdm_state \<Rightarrow> tdm_state option" where
  "tdm_play s =
     (if MACRO_iterator s \<noteq> MACRO_end s
      then (if delay_ms (MACRO_buffers (play_advance s) (MACRO_iterator (play_advance s))) \<noteq> 0
            then Some (play_pause (play_advance s))
            else tdm_play (play_advance s))
      else Some (s\<lparr>play_finished := True\<rparr>))"

definition tdm_play_stop :: "tdm_state \<Rightarrow> tdm_state" where
  "tdm_play_stop s = tdm_play_stop_user (tdm_clear_tokens (layer_clear (clear_keyboard s)))"

definition tdm_loop_start :: "tdm_config \<Rightarrow> tdm_state \<Rightarrow> tdm_state" where
  "tdm_loop_start K s =
     (let s1 = tdm_play_user s;
          s2 = (if play_token s1 \<noteq> INVALID_DEFERRED_TOKEN then tdm_clear_tokens s1 else s1);
          s3 = tdm_reset_iterator K s2;
          (token, s4) = defer_exec TDM_DEBOUNCE_DELAY Tdm_loop_callback s3
      in s4\<lparr>play_token := token\<rparr>)"

section \<open>The finite state controller\<close>

datatype TransitionFunction =
  Tdm_record_start | Tdm_record_delay_start | Tdm_record_delay_end | Tdm_record_end |
  Tdm_play_start | Tdm_play_stop | Tdm_loop_start | Tdm_select_start | Tdm_select_end

type_synonym transition_table = "State \<Rightarrow> State \<Rightarrow> TransitionFunction option"

definition set_transition ::
  "State \<Rightarrow> State \<Rightarrow> TransitionFunction \<Rightarrow> transition_table \<Rightarrow> transition_table" where
  "set_transition from to f m = m(from := (m from)(to \<mapsto> f))"

definition tdm_init_state_machine :: "transition_table \<Rightarrow> transition_table" where
  "tdm_init_state_machine m =
     (set_transition STATE_selecting STATE_idle Tdm_select_end \<circ>
      set_transition STATE_idle STATE_selecting Tdm_select_start \<circ>
      set_transition STATE_looping STATE_idle Tdm_play_stop \<circ>
      set_transition STATE_looping STATE_looping Tdm_loop_start \<circ>
      set_transition STATE_idle STATE_looping Tdm_loop_start \<circ>
      set_transition STATE_playing STATE_idle Tdm_play_stop \<circ>
      set_transition STATE_idle STATE_playing Tdm_play_start \<circ>
      set_transition STATE_recording STATE_idle Tdm_record_end \<circ>
      set_transition STATE_recording_delay STATE_recording Tdm_record_delay_end \<circ>
      set_transition STATE_recording STATE_recording_delay Tdm_record_delay_start \<circ>
      set_transition STATE_idle STATE_recording Tdm_record_start) m"

text \<open>
  The table is a zero-initialised static array; \<^verbatim>\<open>tdm_init\<close> fills it once and nothing
  else assigns it, so the table in force is a constant.
\<close>

definition transition_matrix :: transition_table where
  "transition_matrix = tdm_init_state_machine (\<lambda>_ _. None)"

definition tdm_invalid_transition :: "State \<Rightarrow> tdm_state \<Rightarrow> tdm_state" where
  "tdm_invalid_transition next_state s = s\<lparr>diag := diag s @ [(MACRO_current_state s, next_state)]\<rparr>"


text \<open>
  \<^verbatim>\<open>tdm_state_transition\<close> looks the pair up, and either reports it or sets the mode and
  calls the function stored in the table. \<^verbatim>\<open>tdm_play_start\<close>, one of these functions, asks
  for the transition to idle itself when the macro has no delay.
\<close>

function tdm_state_transition :: "tdm_config \<Rightarrow> State \<Rightarrow> tdm_state \<Rightarrow> (bool \<times> tdm_state) option"
  and tdm_play_start :: "tdm_config \<Rightarrow> tdm_state \<Rightarrow> tdm_state option"
where
  "tdm_state_transition K next_state s =
     (case transition_matrix (MACRO_current_state s) next_state of
        None \<Rightarrow> Some (False, tdm_invalid_transition next_state s)
      | Some transition \<Rightarrow>
          do {
            s' \<leftarrow> (case transition of
                     Tdm_record_start \<Rightarrow> Some (tdm_record_start K (s\<lparr>MACRO_current_state := next_state\<rparr>))
                   | Tdm_record_delay_start \<Rightarrow> tdm_record_delay_start K (s\<lparr>MACRO_current_state := next_state\<rparr>)
                   | Tdm_record_delay_end \<Rightarrow> Some (tdm_record_delay_end (s\<lparr>MACRO_current_state := next_state\<rparr>))
                   | Tdm_record_end \<Rightarrow> tdm_record_end K (s\<lparr>MACRO_current_state := next_state\<rparr>)
                   | Tdm_play_start \<Rightarrow> tdm_play_start K (s\<lparr>MACRO_current_state := next_state\<rparr>)
                   | Tdm_play_stop \<Rightarrow> Some (tdm_play_stop (s\<lparr>MACRO_current_state := next_state\<rparr>))
                   | Tdm_loop_start \<Rightarrow> Some (tdm_loop_start K (s\<lparr>MACRO_current_state := next_state\<rparr>))
                   | Tdm_select_start \<Rightarrow> Some (tdm_select_start (s\<lparr>MACRO_current_state := next_state\<rparr>))
                   | Tdm_select_end \<Rightarrow> Some (tdm_select_end (s\<lparr>MACRO_current_state := next_state\<rparr>)));
            Some (True, s')
          })"
| "tdm_play_start K s =
     do {
       s1 \<leftarrow> tdm_play (tdm_reset_iterator K (tdm_play_user (layer_clear (clear_keyboard s))));
       if play_finished s1
       then do { r \<leftarrow> tdm_state_transition K STATE_idle (tdm_clear_tokens s1); Some (snd r) }
       else Some s1
     }"
  by pat_completeness auto
termination
proof (relation "measure (\<lambda>x. case x of Inl (K, n, s) \<Rightarrow> (if n = STATE_playing then 3 else 1)
                                        | Inr (K, s) \<Rightarrow> 2)")
  show "wf (measure (\<lambda>x. case x of Inl (K, n, s) \<Rightarrow> (if n = STATE_playing then 3 else 1)
                                  | Inr (K, s) \<Rightarrow> 2))"
    by simp
next
  fix K :: tdm_config and next_state :: State and s :: tdm_state and x2 :: TransitionFunction
  assume "transition_matrix (MACRO_current_state s) next_state = Some x2" and "x2 = Tdm_play_start"
  then have "next_state = STATE_playing"
    by (cases "MACRO_current_state s"; cases next_state;
        simp add: transition_matrix_def tdm_init_state_machine_def set_transition_def)
  then show "(Inr (K, s\<lparr>MACRO_current_state := next_state\<rparr>), Inl (K, next_state, s))
          \<in> measure (\<lambda>x. case x of Inl (K, n, s) \<Rightarrow> (if n = STATE_playing then 3 else 1)
                                  | Inr (K, s) \<Rightarrow> 2)"
    by simp
next
  fix K :: tdm_config and s a :: tdm_state
  show "(Inl (K, STATE_idle, tdm_clear_tokens a), Inr (K, s))
          \<in> measure (\<lambda>x. case x of Inl (K, n, s) \<Rightarrow> (if n = STATE_playing then 3 else 1)
                                  | Inr (K, s) \<Rightarrow> 2)"
    by simp
qed

declare tdm_state_transition.simps [simp del]
declare tdm_play_start.simps [simp del]

section \<open>Timer callbacks\<close>

text \<open>Each callback returns the interval after which it wants to run again, 0 for never.\<close>

definition tdm_delay_callback :: "tdm_config \<Rightarrow> tdm_state \<Rightarrow> (32 word \<times> tdm_state) option" where
  "tdm_delay_callback K s =
     do {
       s1 \<leftarrow> tdm_play s;
       if play_finished s1
       then do { r \<leftarrow> tdm_state_transition K STATE_idle s1; Some (0, tdm_clear_tokens (snd r)) }
       else Some (0, s1)
     }"

definition tdm_loop_callback :: "tdm_config \<Rightarrow> tdm_state \<Rightarrow> (32 word \<times> tdm_state) option" where
  "tdm_loop_callback K s =
     do {
       s1 \<leftarrow> tdm_play s;
       if play_finished s1
       then Some (TDM_DEBOUNCE_DELAY, tdm_reset_iterator K s1)
       else Some (0, s1)
     }"

text \<open>
  Modelled from the spec: the expiry of the executor registered under \<open>token\<close>, as the
  scheduler of the firmware performs it: the callback runs, and its executor is dropped
  when it returns 0 and keeps its token with the new interval otherwise. A token with
  no pending executor expires without effect.
\<close>

definition run_callback :: "tdm_config \<Rightarrow> DeferCallback \<Rightarrow> tdm_state \<Rightarrow> (32 word \<times> tdm_state) option" where
  "run_callback K cb s =
     (case cb of Tdm_delay_callback \<Rightarrow> tdm_delay_callback K s
               | Tdm_loop_callback \<Rightarrow> tdm_loop_callback K s)"

definition deferred_expire :: "tdm_config \<Rightarrow> nat \<Rightarrow> tdm_state \<Rightarrow> tdm_state option" where
  "deferred_expire K token s =
     (case map_of (deferred s) token of
        None \<Rightarrow> Some s
      | Some (delay, cb) \<Rightarrow>
          do {
            r \<leftarrow> run_callback K cb s;
            Some (if fst r = 0
                  then cancel_deferred_exec token (snd r)
                  else (snd r)\<lparr>deferred :=
                         map (\<lambda>e. if fst e = token then (token, fst r, snd (snd e)) else e)
                           (deferred (snd r))\<rparr>)
          })"

section \<open>The key-event handler\<close>

definition keycode_to_state :: "tdm_config \<Rightarrow> 16 word \<Rightarrow> State" where
  "keycode_to_state K kc =
     (if uint kc = TDM_RECORD K then STATE_recording
      else if uint kc = TDM_DELAY K then STATE_recording_delay
      else if uint kc = TDM_END K then STATE_idle
      else if uint kc = TDM_PLAY K then STATE_playing
      else if uint kc = TDM_LOOP K then STATE_looping
      else if uint kc = TDM_SELECT K then STATE_selecting
      else STATE_idle)"

definition process_temporal_dynamic_macro ::
  "tdm_config \<Rightarrow> 16 word \<Rightarrow> bool \<Rightarrow> tdm_state \<Rightarrow> (bool \<times> tdm_state) option" where
  "process_temporal_dynamic_macro K kc pressed s =
     (if tdm_is_control_key K kc then
        (if \<not> pressed
         then do { r \<leftarrow> tdm_state_transition K (keycode_to_state K kc) s;
                   Some (\<not> TDM_SILENT_RECORDED_KEYS, snd r) }
         else Some (\<not> TDM_SILENT_RECORDED_KEYS, s))
      else if tdm_is_layer_key K kc then Some (True, s)
      else
        (case MACRO_current_state s of
           STATE_idle \<Rightarrow> Some (True, s)
         | STATE_recording \<Rightarrow>
             (if tdm_is_valid_key K kc
              then do { s' \<leftarrow> tdm_record_key K kc pressed s; Some (\<not> TDM_SILENT_RECORDED_KEYS, s') }
              else if pressed
              then do { r \<leftarrow> tdm_state_transition K STATE_idle s;
                        Some (\<not> TDM_SILENT_INVALID_KEYS, snd r) }
              else Some (\<not> TDM_SILENT_RECORDED_KEYS, s))
         | STATE_recording_delay \<Rightarrow>
             (if tdm_is_valid_number K kc \<and> pressed
              then Some (\<not> TDM_SILENT_RECORDED_KEYS, tdm_record_delay kc s)
              else if \<not> pressed \<and> \<not> tdm_is_valid_number K kc
              then do { r \<leftarrow> tdm_state_transition K STATE_recording s;
                        Some (\<not> TDM_SILENT_RECORDED_KEYS, snd r) }
              else Some (\<not> TDM_SILENT_RECORDED_KEYS, s))
         | STATE_selecting \<Rightarrow>
             (if \<not> pressed then Some (\<not> TDM_SILENT_RECORDED_KEYS, s)
              else if tdm_is_valid_number K kc
              then Some (\<not> TDM_SILENT_RECORDED_KEYS, tdm_select_macro kc s)
              else do { r \<leftarrow> tdm_state_transition K STATE_idle s;
                        Some (\<not> TDM_SILENT_INVALID_KEYS, snd r) })
         | _ \<Rightarrow> Some (True, s)))"

section \<open>Initialisation and runs\<close>

text \<open>
  The state the C runtime starts from: every static variable is zero, except those with
  an initialiser. Memory next to the array is taken as zero as well.
\<close>

definition power_on :: "tdm_config \<Rightarrow> tdm_state" where
  "power_on K =
     \<lparr>MACRO_buffers = (\<lambda>_. \<lparr>keycode = 0, delay_ms = 0, flags = 0\<rparr>),
      MACRO_ends = (\<lambda>_. NULL K),
      MACRO_id = 0,
      MACRO_start = NULL K,
      MACRO_iterator = NULL K,
      MACRO_end = NULL K,
      MACRO_direction = 1,
      MACRO_delay_next_key_ms = 0,
      MACRO_current_state = STATE_idle,
      MACRO_selection = 0,
      play_finished = False,
      got_first_keydown = False,
      play_token = INVALID_DEFERRED_TOKEN,
      delay_token = INVALID_DEFERRED_TOKEN,
      sink = [],
      diag = [],
      deferred = [],
      next_token = 1\<rparr>"

definition tdm_init :: "tdm_config \<Rightarrow> tdm_state \<Rightarrow> tdm_state" where
  "tdm_init K s = tdm_init_user (reset_state K s)"

text \<open>
  What reaches the module from outside: a key event of the device, or the expiry of a
  pending executor. A run feeds a list of them, in order, to an initialised module.
\<close>

datatype tdm_input = Key "16 word" bool | Expire nat

definition tdm_step :: "tdm_config \<Rightarrow> tdm_input \<Rightarrow> tdm_state \<Rightarrow> tdm_state option" where
  "tdm_step K i s =
     (case i of
        Key kc pressed \<Rightarrow> map_option snd (process_temporal_dynamic_macro K kc pressed s)
      | Expire token \<Rightarrow> deferred_expire K token s)"

fun tdm_run :: "tdm_config \<Rightarrow> tdm_input list \<Rightarrow> tdm_state \<Rightarrow> tdm_state option" where
  "tdm_run K [] s = Some s"
| "tdm_run K (i # is) s = do { s' \<leftarrow> tdm_step K i s; tdm_run K is s' }"


declare record_end_loop.simps [code]
declare record_delay_start_loop.simps [code]
declare tdm_play.simps [code]

section \<open>Concrete configurations\<close>

text \<open>
  The header's default capacity with the keycode values of a current firmware, and the same
  with a region of four records. Ordinary keys (4 is the letter A) are neither control
  keys nor layer keys under these values.
\<close>

definition qmk_config :: tdm_config where
  "qmk_config =
     \<lparr>TDM_BUFFER_SIZE = 50, NULL = - 4096, SAFE_RANGE = 0x7E40,
      QK_MOMENTARY = 0x5220, QK_MOMENTARY_MAX = 0x523F, QK_TO = 0x5200, QK_TO_MAX = 0x521F,
      QK_TOGGLE_LAYER = 0x5260, QK_TOGGLE_LAYER_MAX = 0x527F,
      QK_LAYER_TAP_TOGGLE = 0x52C0, QK_LAYER_TAP_TOGGLE_MAX = 0x52DF,
      QK_ONE_SHOT_LAYER = 0x5280, QK_ONE_SHOT_LAYER_MAX = 0x529F,
      QK_TRI_LAYER_LOWER = 0x7C77, QK_TRI_LAYER_UPPER = 0x7C78, QK_ONE_SHOT_MOD = 0x52A0,
      KC_1 = 30, KC_9 = 38, KC_0 = 39, KC_P1 = 89, KC_P9 = 97, KC_P0 = 98\<rparr>"

definition small_config :: tdm_config where
  "small_config = qmk_config\<lparr>TDM_BUFFER_SIZE := 4\<rparr>"

text \<open>The control keys under \<open>qmk_config\<close>, as key events (they act on release).\<close>

definition REC :: tdm_input where
  "REC = Key 0x7E42 False"

definition DELAY :: tdm_input where
  "DELAY = Key 0x7E43 False"

definition END :: tdm_input where
  "END = Key 0x7E44 False"

definition PLAY :: tdm_input where
  "PLAY = Key 0x7E45 False"

definition LOOP :: tdm_input where
  "LOOP = Key 0x7E46 False"

definition SELECT :: tdm_input where
  "SELECT = Key 0x7E47 False"

definition boot :: "tdm_config \<Rightarrow> tdm_state" where
  "boot K = tdm_init K (power_on K)"


section \<open>Notions used by the properties\<close>

text \<open>The record stored at an offset, and the delays next to the cursor.\<close>

definition record_at :: "int \<Rightarrow> tdm_state \<Rightarrow> tdm_keypress_t" where
  "record_at p s = MACRO_buffers s p"

definition delay_behind_cursor :: "tdm_state \<Rightarrow> 32 word" where
  "delay_behind_cursor s = delay_ms (MACRO_buffers s (MACRO_iterator s - MACRO_direction s))"

definition delay_at_cursor :: "tdm_state \<Rightarrow> 32 word" where
  "delay_at_cursor s = delay_ms (MACRO_buffers s (MACRO_iterator s))"

text \<open>The call through the function pointer taken from the table.\<close>

definition call_transition :: "tdm_config \<Rightarrow> TransitionFunction \<Rightarrow> tdm_state \<Rightarrow> tdm_state option" where
  "call_transition K f s =
     (case f of
        Tdm_record_start \<Rightarrow> Some (tdm_record_start K s)
      | Tdm_record_delay_start \<Rightarrow> tdm_record_delay_start K s
      | Tdm_record_delay_end \<Rightarrow> Some (tdm_record_delay_end s)
      | Tdm_record_end \<Rightarrow> tdm_record_end K s
      | Tdm_play_start \<Rightarrow> tdm_play_start K s
      | Tdm_play_stop \<Rightarrow> Some (tdm_play_stop s)
      | Tdm_loop_start \<Rightarrow> Some (tdm_loop_start K s)
      | Tdm_select_start \<Rightarrow> Some (tdm_select_start s)
      | Tdm_select_end \<Rightarrow> Some (tdm_select_end s))"

text \<open>
  The table of section 4.4 of the specification, as it is written there: the eleven legal
  pairs (current mode, requested mode), each with its entry action.
\<close>

definition spec_transition_table :: "((State \<times> State) \<times> TransitionFunction) list" where
  "spec_transition_table =
     [((STATE_idle, STATE_recording), Tdm_record_start),
      ((STATE_recording, STATE_recording_delay), Tdm_record_delay_start),
      ((STATE_recording_delay, STATE_recording), Tdm_record_delay_end),
      ((STATE_recording, STATE_idle), Tdm_record_end),
      ((STATE_idle, STATE_playing), Tdm_play_start),
      ((STATE_playing, STATE_idle), Tdm_play_stop),
      ((STATE_idle, STATE_looping), Tdm_loop_start),
      ((STATE_looping, STATE_looping), Tdm_loop_start),
      ((STATE_looping, STATE_idle), Tdm_play_stop),
      ((STATE_idle, STATE_selecting), Tdm_select_start),
      ((STATE_selecting, STATE_idle), Tdm_select_end)]"

text \<open>
  A cursor from which the end can be reached: the direction is one step, and the end
  lies ahead of the iterator or at it. A slot whose stored end lies ahead of its start
  or at it.
\<close>

definition cursor_ok :: "tdm_state \<Rightarrow> bool" where
  "cursor_ok s =
     ((MACRO_direction s = 1 \<or> MACRO_direction s = - 1) \<and>
      0 \<le> MACRO_direction s * (MACRO_end s - MACRO_iterator s))"

definition slot_ok :: "tdm_config \<Rightarrow> tdm_state \<Rightarrow> bool" where
  "slot_ok K s =
     (0 \<le> DIRECTION (MACRO_id s) * (MACRO_ends s (MACRO_id s) - TDM_CURRENT_START K (MACRO_id s)))"

text \<open>
  What holds while a macro loops: the mode is looping, the playback can go on and has not
  finished, some executor is pending, every pending executor is the loop continuation, and
  tokens in use are older than the next one.
\<close>

definition looping_inv :: "tdm_config \<Rightarrow> tdm_state \<Rightarrow> bool" where
  "looping_inv K s =
     (MACRO_current_state s = STATE_looping \<and> cursor_ok s \<and> slot_ok K s \<and>
      deferred s \<noteq> [] \<and> \<not> play_finished s \<and>
      list_all (\<lambda>e. snd (snd e) = Tdm_loop_callback \<and> fst e < next_token s) (deferred s))"

text \<open>The explicit stop: the release of the control key that requests the idle mode.\<close>

definition stop_request :: "tdm_config \<Rightarrow> tdm_input \<Rightarrow> bool" where
  "stop_request K i =
     (case i of
        Key kc pressed \<Rightarrow> tdm_is_control_key K kc \<and> \<not> pressed \<and> keycode_to_state K kc = STATE_idle
      | Expire token \<Rightarrow> False)"

text \<open>
  The records a slot occupies are those a playback of the slot visits: from its start, in
  its direction, up to its stored end. The cursor is on the neighbour when it points at
  one of the records the other slot of the region occupies.
\<close>

definition occupied :: "tdm_config \<Rightarrow> tdm_state \<Rightarrow> nat \<Rightarrow> int \<Rightarrow> bool" where
  "occupied K s i p =
     (0 \<le> DIRECTION i * (p - TDM_CURRENT_START K i) \<and>
      DIRECTION i * (p - TDM_CURRENT_START K i) <
        DIRECTION i * (MACRO_ends s i - TDM_CURRENT_START K i))"

definition cursor_on_neighbour :: "tdm_config \<Rightarrow> tdm_state \<Rightarrow> bool" where
  "cursor_on_neighbour K s = occupied K s (NEIGHBOR (MACRO_id s)) (MACRO_iterator s)"

definition end_of :: "nat \<Rightarrow> tdm_state \<Rightarrow> int" where
  "end_of i s = MACRO_ends s i"

text \<open>
  What a call of \<^verbatim>\<open>tdm_play\<close> leaves behind: the slot data and the mode are untouched, the
  cursor can still reach the end, and either the macro is finished and nothing was
  registered, or one executor was registered with the continuation of the current mode.
\<close>

definition play_post :: "tdm_state \<Rightarrow> tdm_state \<Rightarrow> bool" where
  "play_post s s' =
     (MACRO_current_state s' = MACRO_current_state s \<and> MACRO_ends s' = MACRO_ends s \<and>
      MACRO_id s' = MACRO_id s \<and> MACRO_direction s' = MACRO_direction s \<and>
      MACRO_end s' = MACRO_end s \<and> MACRO_buffers s' = MACRO_buffers s \<and>
      play_token s' = play_token s \<and> cursor_ok s' \<and>
      (if play_finished s'
       then deferred s' = deferred s \<and> next_token s' = next_token s
       else next_token s' = next_token s + 1 \<and>
            deferred s' = deferred s @
              [(next_token s, delay_at_cursor s',
                if MACRO_current_state s = STATE_looping then Tdm_loop_callback else Tdm_delay_callback)]))"

section \<open>Flags\<close>

lemma flags_set_flag:
  "flags (set_flag r flag b) = (if b then flags r OR flag else flags r AND NOT flag)"
proof (cases b)
  case True
  then show ?thesis
    by (simp add: set_flag_def) (rule bit_eqI, auto simp add: bit_simps)
next
  case False
  then show ?thesis
    by (simp add: set_flag_def) (rule bit_eqI, auto simp add: bit_simps)
qed

lemma single_bit_nonzero: "single_bit flag \<Longrightarrow> flag \<noteq> 0"
  by (auto simp add: single_bit_def upt_rec)

lemma is_set_alt: "is_set r flag = (flags r AND flag \<noteq> 0)"
  unfolding is_set_def by (metis uint_0_iff uint_and)

text \<open>
  C10. For every keypress record, every single-bit flag mask and every boolean \<open>b\<close>,
  \<open>set_flag\<close> leaves the flag bits outside the mask (and the keycode and the delay) as they
  were, and afterwards \<open>is_set\<close> on that mask returns exactly \<open>b\<close>.
\<close>

theorem set_flag_frame_and_readback:
  assumes "single_bit flag"
  shows "flags (set_flag r flag b) AND NOT flag = flags r AND NOT flag \<and>
         is_set (set_flag r flag b) flag = b \<and>
         keycode (set_flag r flag b) = keycode r \<and>
         delay_ms (set_flag r flag b) = delay_ms r"
proof (intro conjI)
  show "flags (set_flag r flag b) AND NOT flag = flags r AND NOT flag"
    unfolding flags_set_flag by (rule bit_eqI) (auto simp add: bit_simps)
  have "(flags r OR flag) AND flag = flag" "(flags r AND NOT flag) AND flag = 0"
    by (rule bit_eqI, auto simp add: bit_simps)+
  with single_bit_nonzero [OF assms] show "is_set (set_flag r flag b) flag = b"
    by (simp add: is_set_alt flags_set_flag)
  show "keycode (set_flag r flag b) = keycode r" "delay_ms (set_flag r flag b) = delay_ms r"
    by (simp_all add: set_flag_def)
qed

theorem set_flag_frame_and_readback_witness:
  "single_bit FLAG_pressed \<and>
   flags (set_flag \<lparr>keycode = 4, delay_ms = 0, flags = 6\<rparr> FLAG_pressed True) AND NOT FLAG_pressed = 6 \<and>
   is_set (set_flag \<lparr>keycode = 4, delay_ms = 0, flags = 6\<rparr> FLAG_pressed True) FLAG_pressed"
  using set_flag_frame_and_readback [of FLAG_pressed "\<lparr>keycode = 4, delay_ms = 0, flags = 6\<rparr>" True]
  by (simp add: single_bit_def FLAG_pressed_def upt_rec)


section \<open>Recording\<close>

text \<open>
  C5. In every recording session, a release that arrives before any press of that session
  should leave no record and keep the cursor where it is. The guard of
  \<^verbatim>\<open>tdm_record_key\<close> is a static flag that is set by the first press after power-on and
  never cleared, so the guard works in the first session only. In the run below a second
  session starts (the cursor is back at offset 0) and the release of key 5 is its first
  event: the release is stored at offset 0 and the cursor moves to 1.
\<close>

theorem leading_release_stored_in_second_session:
  "map_option MACRO_iterator
     (tdm_run qmk_config [REC, Key 4 True, Key 4 False, END, REC] (boot qmk_config)) = Some 0 \<and>
   map_option (record_at 0)
     (tdm_run qmk_config [REC, Key 4 True, Key 4 False, END, REC, Key 5 False] (boot qmk_config)) =
     Some \<lparr>keycode = 5, delay_ms = 0, flags = 0\<rparr> \<and>
   map_option MACRO_iterator
     (tdm_run qmk_config [REC, Key 4 True, Key 4 False, END, REC, Key 5 False] (boot qmk_config)) =
     Some 1"
  by code_simp

text \<open>
  C2. When the next write position equals the end of the neighbour slot, the event should
  not be written and the recording should end; with a region of four records and an empty
  neighbour, four events fit and the fifth ends the recording at four. The guard of
  \<^verbatim>\<open>tdm_record_key\<close> compares the position behind the cursor with the neighbour's end, and
  an empty odd slot ends one record past the region. In the run below, after four events
  the cursor (4) equals the neighbour's end (4); the fifth event is then stored at offset
  4, which is outside the region, and the cursor moves to 5.
\<close>

theorem collision_guard_one_record_late:
  "map_option MACRO_iterator
     (tdm_run small_config [REC, Key 4 True, Key 5 True, Key 6 True, Key 7 True] (boot small_config)) =
     Some 4 \<and>
   map_option (end_of 1)
     (tdm_run small_config [REC, Key 4 True, Key 5 True, Key 6 True, Key 7 True] (boot small_config)) =
     Some 4 \<and>
   map_option (record_at 4)
     (tdm_run small_config [REC, Key 4 True, Key 5 True, Key 6 True, Key 7 True, Key 8 True]
        (boot small_config)) =
     Some \<lparr>keycode = 8, delay_ms = 0, flags = 1\<rparr> \<and>
   map_option MACRO_iterator
     (tdm_run small_config [REC, Key 4 True, Key 5 True, Key 6 True, Key 7 True, Key 8 True]
        (boot small_config)) =
     Some 5 \<and>
   \<not> in_region small_config 4"
  by code_simp

section \<open>The shared region\<close>

text \<open>
  C4. Every read and write of a macro record should stay inside the region array, for even
  and for odd slots. \<^verbatim>\<open>TDM_CURRENT_START\<close> of an odd slot is the start of the region plus
  its size, one record past the last one. In the first run slot 1 is selected and a
  recording starts: the cursor is at offset 50 of a region of 50 records, and the first
  key is stored there. In the second run slot 0 records while slot 1 is empty: its 51st
  event is stored at offset 50 as well.
\<close>

theorem odd_slot_starts_past_the_region:
  "map_option MACRO_id
     (tdm_run qmk_config [SELECT, Key 30 True, Key 30 False, END, REC] (boot qmk_config)) = Some 1 \<and>
   map_option MACRO_iterator
     (tdm_run qmk_config [SELECT, Key 30 True, Key 30 False, END, REC] (boot qmk_config)) = Some 50 \<and>
   map_option (record_at 50)
     (tdm_run qmk_config [SELECT, Key 30 True, Key 30 False, END, REC, Key 4 True] (boot qmk_config)) =
     Some \<lparr>keycode = 4, delay_ms = 0, flags = 1\<rparr> \<and>
   map_option (record_at 50)
     (tdm_run qmk_config (REC # replicate 51 (Key 4 True)) (boot qmk_config)) =
     Some \<lparr>keycode = 4, delay_ms = 0, flags = 1\<rparr> \<and>
   \<not> in_region qmk_config 50"
  by code_simp

text \<open>
  C1. The occupied ranges of the two slots of a region should never intersect, and no
  operation should write into a record of the neighbour's occupied range. After each
  stored event \<^verbatim>\<open>tdm_record_key\<close> clears the delay and the flags of the record under the new
  cursor, without asking whose record it is. In the run below slot 0 holds the presses of
  keys 4 and 5 at offsets 0 and 1 (its end is 2). Slot 1 is then selected and records
  presses: after 48 of them the record at offset 1 is intact, and the 49th, stored at
  offset 2, clears the flags of the record at offset 1, so that slot 0 now holds a release
  of key 5. Played back, slot 0 emits the press of 4 and the release of 5. (The records
  of slot 1 begin at offset 50, as shown for C4; slot 1 cannot be occupied otherwise.)
\<close>

theorem neighbour_record_cleared:
  "map_option (end_of 0)
     (tdm_run qmk_config
        ([REC, Key 4 True, Key 5 True, END, SELECT, Key 30 True, Key 30 False, END, REC] @
         replicate 48 (Key 6 True)) (boot qmk_config)) = Some 2 \<and>
   map_option (record_at 1)
     (tdm_run qmk_config
        ([REC, Key 4 True, Key 5 True, END, SELECT, Key 30 True, Key 30 False, END, REC] @
         replicate 48 (Key 6 True)) (boot qmk_config)) =
     Some \<lparr>keycode = 5, delay_ms = 0, flags = 1\<rparr> \<and>
   map_option (record_at 1)
     (tdm_run qmk_config
        ([REC, Key 4 True, Key 5 True, END, SELECT, Key 30 True, Key 30 False, END, REC] @
         replicate 49 (Key 6 True)) (boot qmk_config)) =
     Some \<lparr>keycode = 5, delay_ms = 0, flags = 0\<rparr> \<and>
   map_option sink
     (tdm_run qmk_config
        ([REC, Key 4 True, Key 5 True, END, SELECT, Key 30 True, Key 30 False, END, REC] @
         replicate 49 (Key 6 True) @
         [END, SELECT, Key 39 True, Key 39 False, END, PLAY]) (boot qmk_config)) =
     Some [Clear_keyboard, Layer_clear, Clear_keyboard, Layer_clear, Clear_keyboard, Layer_clear,
           Clear_keyboard, Layer_clear, Clear_keyboard, Layer_clear,
           Register_code 4, Unregister_code 5, Clear_keyboard, Layer_clear]"
  by code_simp

section \<open>Delay entry\<close>

text \<open>
  C6. The delay accumulator, and with it every stored delay, should never exceed 7,200,000
  ms: a digit that would take it past the cap should be rejected. \<^verbatim>\<open>tdm_record_delay\<close>
  compares the accumulator with the cap before it multiplies, so a digit is accepted
  whenever the value so far is within the cap. In the run below the digit 9 is entered
  seven times: the accumulator reaches 9,999,999, and ending the delay entry stores it.
\<close>

theorem delay_accumulator_passes_the_cap:
  "map_option MACRO_delay_next_key_ms
     (tdm_run qmk_config
        [REC, Key 4 True, Key 4 False, DELAY, Key 38 True, Key 38 True, Key 38 True, Key 38 True,
         Key 38 True, Key 38 True, Key 38 True] (boot qmk_config)) = Some 9999999 \<and>
   map_option delay_at_cursor
     (tdm_run qmk_config
        [REC, Key 4 True, Key 4 False, DELAY, Key 38 True, Key 38 True, Key 38 True, Key 38 True,
         Key 38 True, Key 38 True, Key 38 True, REC] (boot qmk_config)) = Some 9999999 \<and>
   (7200000 :: 32 word) < 9999999"
  by code_simp

text \<open>
  C7, as the specification states it: ending a delay entry writes the accumulated value
  into the record immediately behind the cursor. It does not. In the run below key 4 is
  pressed and released (offsets 0 and 1, cursor at 2), the delay 150 is typed and the delay
  entry ends: the record behind the cursor still has no delay, and the record at the
  cursor has the 150.
\<close>

theorem delay_not_behind_cursor:
  "map_option MACRO_delay_next_key_ms
     (tdm_run qmk_config
        [REC, Key 4 True, Key 4 False, DELAY, Key 30 True, Key 30 False, Key 34 True, Key 34 False,
         Key 39 True, Key 39 False] (boot qmk_config)) = Some 150 \<and>
   map_option delay_behind_cursor
     (tdm_run qmk_config
        [REC, Key 4 True, Key 4 False, DELAY, Key 30 True, Key 30 False, Key 34 True, Key 34 False,
         Key 39 True, Key 39 False, REC] (boot qmk_config)) = Some 0 \<and>
   map_option delay_at_cursor
     (tdm_run qmk_config
        [REC, Key 4 True, Key 4 False, DELAY, Key 30 True, Key 30 False, Key 34 True, Key 34 False,
         Key 39 True, Key 39 False, REC] (boot qmk_config)) = Some 150"
  by code_simp

section \<open>The controller\<close>

lemma transition_matrix_eq_spec:
  "transition_matrix a b = map_of spec_transition_table (a, b)"
  by (cases a; cases b;
      simp add: transition_matrix_def tdm_init_state_machine_def set_transition_def
        spec_transition_table_def)

lemma tdm_state_transition_call:
  "tdm_state_transition K next_state s =
     (case transition_matrix (MACRO_current_state s) next_state of
        None \<Rightarrow> Some (False, tdm_invalid_transition next_state s)
      | Some f \<Rightarrow> map_option (Pair True) (call_transition K f (s\<lparr>MACRO_current_state := next_state\<rparr>)))"
  by (simp add: tdm_state_transition.simps call_transition_def map_option_case
      split: option.split TransitionFunction.split)

lemma boot_fields:
  "MACRO_current_state (boot K) = STATE_idle" "diag (boot K) = []"
  by (simp_all add: boot_def tdm_init_def tdm_init_user_def reset_state_def power_on_def Let_def)

text \<open>
  C7, amended. For every delay entry ended during recording (the transition from
  recording-delay to recording) with the cursor inside the region and not on a record
  that the neighbour slot occupies, the accumulated value is written into the delay of the
  record at the cursor; the cursor is noted as the end of the slot, the accumulator is
  reset to 0, and nothing else changes. (Under the two conditions the store of the source
  is inside the array and on a record that is the slot's own to write.)
\<close>

theorem delay_end_writes_at_cursor:
  assumes "MACRO_current_state s = STATE_recording_delay"
    and "in_region K (MACRO_iterator s)"
    and "\<not> cursor_on_neighbour K s"
  shows "tdm_state_transition K STATE_recording s =
     Some (True,
        s\<lparr>MACRO_current_state := STATE_recording,
          MACRO_ends := (MACRO_ends s)(MACRO_id s := MACRO_iterator s),
          MACRO_buffers := (MACRO_buffers s)
            (MACRO_iterator s :=
               (MACRO_buffers s (MACRO_iterator s))\<lparr>delay_ms := MACRO_delay_next_key_ms s\<rparr>),
          MACRO_delay_next_key_ms := 0\<rparr>)"
  using assms(1)
  by (simp add: tdm_state_transition_call transition_matrix_eq_spec spec_transition_table_def
      call_transition_def tdm_record_delay_end_def print_macros_def upd_record_def Let_def)

theorem delay_end_writes_at_cursor_witness:
  "\<exists>s. tdm_run qmk_config
          [REC, Key 4 True, Key 4 False, DELAY, Key 30 True, Key 30 False, Key 34 True,
           Key 34 False, Key 39 True, Key 39 False] (boot qmk_config) = Some s \<and>
       MACRO_current_state s = STATE_recording_delay \<and>
       in_region qmk_config (MACRO_iterator s) \<and> \<not> cursor_on_neighbour qmk_config s \<and>
       MACRO_iterator s = 2 \<and> MACRO_delay_next_key_ms s = 150 \<and>
       map_option (record_at 2) (map_option snd (tdm_state_transition qmk_config STATE_recording s)) =
         Some \<lparr>keycode = 0, delay_ms = 150, flags = 0\<rparr>"
proof -
  define r where "r = tdm_run qmk_config
          [REC, Key 4 True, Key 4 False, DELAY, Key 30 True, Key 30 False, Key 34 True,
           Key 34 False, Key 39 True, Key 39 False] (boot qmk_config)"
  have a: "map_option MACRO_current_state r = Some STATE_recording_delay"
    unfolding r_def by code_simp
  have b: "map_option MACRO_iterator r = Some 2"
    unfolding r_def by code_simp
  have c: "map_option MACRO_delay_next_key_ms r = Some 150"
    unfolding r_def by code_simp
  have d: "map_option (record_at 2) r = Some \<lparr>keycode = 0, delay_ms = 0, flags = 0\<rparr>"
    unfolding r_def by code_simp
  have e: "map_option (cursor_on_neighbour qmk_config) r = Some False"
    unfolding r_def by code_simp
  from a obtain s where s: "r = Some s" by auto
  with a b c d e have f: "MACRO_current_state s = STATE_recording_delay" "MACRO_iterator s = 2"
    "MACRO_delay_next_key_ms s = 150" "MACRO_buffers s 2 = \<lparr>keycode = 0, delay_ms = 0, flags = 0\<rparr>"
    "\<not> cursor_on_neighbour qmk_config s"
    by (simp_all add: record_at_def)
  from f(2) have g: "in_region qmk_config (MACRO_iterator s)"
    by (simp add: in_region_def qmk_config_def)
  from delay_end_writes_at_cursor [OF f(1) g f(5)] f
  have "map_option (record_at 2) (map_option snd (tdm_state_transition qmk_config STATE_recording s)) =
         Some \<lparr>keycode = 0, delay_ms = 150, flags = 0\<rparr>"
    by (simp add: record_at_def)
  with s f g show ?thesis
    unfolding r_def by blast
qed

text \<open>
  Under the same two conditions the record at the cursor is the one the next recorded key
  event fills: in a slot of the region whose cursor moves in the slot's direction, the
  collision guard of \<^verbatim>\<open>tdm_record_key\<close> does not fire, the event is stored at the cursor,
  and the delay written there stays.
\<close>

lemma next_key_fills_record_at_cursor:
  assumes inside: "in_region K (MACRO_iterator s)"
    and free: "\<not> cursor_on_neighbour K s"
    and slot: "MACRO_id s < TDM_NUM_MACROS"
    and dir: "MACRO_direction s = DIRECTION (MACRO_id s)"
    and first: "pressed \<or> got_first_keydown s"
  shows "map_option (record_at (MACRO_iterator s)) (tdm_record_key K kc pressed s) =
     Some (set_flag ((MACRO_buffers s (MACRO_iterator s))\<lparr>keycode := kc\<rparr>) FLAG_pressed pressed)"
proof -
  from slot have "MACRO_id s = 0 \<or> MACRO_id s = 1"
    by (auto simp add: TDM_NUM_MACROS_def)
  with inside free dir
  have guard: "MACRO_iterator s - MACRO_direction s \<noteq> MACRO_ends s (NEIGHBOR (MACRO_id s))"
    and step: "MACRO_iterator s + MACRO_direction s \<noteq> MACRO_iterator s"
    by (auto simp add: in_region_def cursor_on_neighbour_def occupied_def NEIGHBOR_def
        DIRECTION_def TDM_CURRENT_START_def TDM_BUFFER_START_def)
  with first show ?thesis
    by (auto simp add: tdm_record_key_def Let_def upd_record_def record_at_def
        tdm_record_key_user_def print_macros_def)
qed

text \<open>
  C8. For every current mode and every requested mode: when the pair is one of the eleven
  entries of the table of section 4.4, the mode is set to the requested one and the entry
  action bound to the pair is called, and the transition reports success once the action
  returns; for every other pair the transition is rejected, the mode and all data are as
  before, and the only change is one more diagnostic.
\<close>

theorem transition_exactly_table:
  "(map_of spec_transition_table (MACRO_current_state s, next_state) = Some f \<longrightarrow>
      tdm_state_transition K next_state s =
        map_option (Pair True) (call_transition K f (s\<lparr>MACRO_current_state := next_state\<rparr>))) \<and>
   (map_of spec_transition_table (MACRO_current_state s, next_state) = None \<longrightarrow>
      tdm_state_transition K next_state s =
        Some (False, s\<lparr>diag := diag s @ [(MACRO_current_state s, next_state)]\<rparr>))"
  by (simp add: tdm_state_transition_call transition_matrix_eq_spec tdm_invalid_transition_def)

theorem transition_exactly_table_witness:
  "map_of spec_transition_table (STATE_idle, STATE_selecting) = Some Tdm_select_start \<and>
   tdm_state_transition qmk_config STATE_selecting (boot qmk_config) =
     Some (True, tdm_select_start ((boot qmk_config)\<lparr>MACRO_current_state := STATE_selecting\<rparr>)) \<and>
   map_of spec_transition_table (STATE_idle, STATE_recording_delay) = None \<and>
   tdm_state_transition qmk_config STATE_recording_delay (boot qmk_config) =
     Some (False, (boot qmk_config)\<lparr>diag := [(STATE_idle, STATE_recording_delay)]\<rparr>)"
  using transition_exactly_table [of "boot qmk_config" STATE_selecting Tdm_select_start qmk_config]
    transition_exactly_table [of "boot qmk_config" STATE_recording_delay Tdm_select_start qmk_config]
  by (simp add: boot_fields spec_transition_table_def call_transition_def)

section \<open>Round trip\<close>

text \<open>
  C3. Recording press and release events with no delay and playing the slot back should
  emit the same press and release calls in the same order. \<^verbatim>\<open>tdm_record_end\<close> walks back
  over every trailing record whose pressed flag is clear, so the releases that end a
  recording are not kept. In the run below key 4 is pressed and released, the recording
  ends and the slot is played: between the release-all calls of the mode changes the sink
  receives the press of key 4 and no release.
\<close>

theorem roundtrip_loses_trailing_release:
  "map_option sink
     (tdm_run qmk_config [REC, Key 4 True, Key 4 False, END, PLAY] (boot qmk_config)) =
   Some [Clear_keyboard, Layer_clear, Clear_keyboard, Layer_clear, Register_code 4,
         Clear_keyboard, Layer_clear]"
  by code_simp

section \<open>Looping\<close>

lemma play_advance_fields [simp]:
  "MACRO_iterator (play_advance s) = MACRO_iterator s + MACRO_direction s"
  "MACRO_end (play_advance s) = MACRO_end s"
  "MACRO_direction (play_advance s) = MACRO_direction s"
  "MACRO_current_state (play_advance s) = MACRO_current_state s"
  "MACRO_ends (play_advance s) = MACRO_ends s"
  "MACRO_id (play_advance s) = MACRO_id s"
  "MACRO_buffers (play_advance s) = MACRO_buffers s"
  "deferred (play_advance s) = deferred s"
  "next_token (play_advance s) = next_token s"
  "play_token (play_advance s) = play_token s"
  "play_finished (play_advance s) = play_finished s"
  by (simp_all add: play_advance_def tdm_play_key_def register_code_def unregister_code_def Let_def)

lemma play_pause_fields [simp]:
  "MACRO_iterator (play_pause s) = MACRO_iterator s"
  "MACRO_end (play_pause s) = MACRO_end s"
  "MACRO_direction (play_pause s) = MACRO_direction s"
  "MACRO_current_state (play_pause s) = MACRO_current_state s"
  "MACRO_ends (play_pause s) = MACRO_ends s"
  "MACRO_id (play_pause s) = MACRO_id s"
  "MACRO_buffers (play_pause s) = MACRO_buffers s"
  "deferred (play_pause s) = deferred s @
     [(next_token s, delay_ms (MACRO_buffers s (MACRO_iterator s)),
       if MACRO_current_state s = STATE_looping then Tdm_loop_callback else Tdm_delay_callback)]"
  "next_token (play_pause s) = next_token s + 1"
  "play_token (play_pause s) = play_token s"
  "play_finished (play_pause s) = play_finished s"
  by (simp_all add: play_pause_def defer_exec_def Let_def)

lemma cursor_ok_at_end:
  "cursor_ok s \<Longrightarrow> nat (MACRO_direction s * (MACRO_end s - MACRO_iterator s)) = 0 \<Longrightarrow>
   MACRO_iterator s = MACRO_end s"
  by (auto simp add: cursor_ok_def)

lemma cursor_ok_advance:
  "cursor_ok s \<Longrightarrow> MACRO_iterator s \<noteq> MACRO_end s \<Longrightarrow>
   cursor_ok (play_advance s) \<and>
   nat (MACRO_direction s * (MACRO_end s - (MACRO_iterator s + MACRO_direction s))) =
     nat (MACRO_direction s * (MACRO_end s - MACRO_iterator s)) - 1"
  by (auto simp add: cursor_ok_def)

lemma tdm_play_total_aux:
  "n = nat (MACRO_direction s * (MACRO_end s - MACRO_iterator s)) \<Longrightarrow> cursor_ok s \<Longrightarrow> \<not> play_finished s \<Longrightarrow>
   \<exists>s'. tdm_play s = Some s' \<and> play_post s s'"
proof (induction n arbitrary: s)
  case 0
  then have "MACRO_iterator s = MACRO_end s"
    by (intro cursor_ok_at_end) simp_all
  then have "tdm_play s = Some (s\<lparr>play_finished := True\<rparr>)"
    by (subst tdm_play.simps) simp
  with 0 show ?case
    by (simp add: play_post_def cursor_ok_def)
next
  case (Suc n)
  then have ne: "MACRO_iterator s \<noteq> MACRO_end s"
    by auto
  from cursor_ok_advance [OF Suc.prems(2) ne] Suc.prems(1)
  have adv: "cursor_ok (play_advance s)"
    and m: "n = nat (MACRO_direction (play_advance s) * (MACRO_end (play_advance s) - MACRO_iterator (play_advance s)))"
    by simp_all
  show ?case
  proof (cases "delay_ms (MACRO_buffers (play_advance s) (MACRO_iterator (play_advance s))) \<noteq> 0")
    case True
    with ne have "tdm_play s = Some (play_pause (play_advance s))"
      by (subst tdm_play.simps) simp
    moreover from adv Suc.prems(3) have "play_post s (play_pause (play_advance s))"
      by (simp add: play_post_def cursor_ok_def delay_at_cursor_def)
    ultimately show ?thesis by blast
  next
    case False
    with ne have eq: "tdm_play s = tdm_play (play_advance s)"
      by (subst tdm_play.simps) simp
    from Suc.prems(3) have "\<not> play_finished (play_advance s)" by simp
    from Suc.IH [OF m adv this] obtain s' where
      "tdm_play (play_advance s) = Some s'" "play_post (play_advance s) s'"
      by blast
    with eq show ?thesis
      by (auto simp add: play_post_def)
  qed
qed


lemma tdm_play_total:
  "cursor_ok s \<Longrightarrow> \<not> play_finished s \<Longrightarrow> \<exists>s'. tdm_play s = Some s' \<and> play_post s s'"
  by (rule tdm_play_total_aux [OF refl])

lemma DIRECTION_cases: "DIRECTION i = 1 \<or> DIRECTION i = - 1"
proof -
  have "i mod 2 = 0 \<or> i mod 2 = 1" by presburger
  then show ?thesis by (auto simp add: DIRECTION_def)
qed

lemma reset_iterator_fields [simp]:
  "MACRO_current_state (tdm_reset_iterator K s) = MACRO_current_state s"
  "MACRO_ends (tdm_reset_iterator K s) = MACRO_ends s"
  "MACRO_id (tdm_reset_iterator K s) = MACRO_id s"
  "deferred (tdm_reset_iterator K s) = deferred s"
  "next_token (tdm_reset_iterator K s) = next_token s"
  "play_token (tdm_reset_iterator K s) = play_token s"
  "play_finished (tdm_reset_iterator K s) = False"
  by (simp_all add: tdm_reset_iterator_def)

lemma cursor_ok_reset: "slot_ok K s \<Longrightarrow> cursor_ok (tdm_reset_iterator K s)"
  unfolding cursor_ok_def slot_ok_def tdm_reset_iterator_def
  using DIRECTION_cases [of "MACRO_id s"] by simp

lemma loop_callback_inv:
  assumes inv: "looping_inv K s"
  shows "\<exists>r s'. tdm_loop_callback K s = Some (r, s') \<and>
           MACRO_current_state s' = STATE_looping \<and> cursor_ok s' \<and> slot_ok K s' \<and>
           \<not> play_finished s' \<and>
           ((r \<noteq> 0 \<and> deferred s' = deferred s \<and> next_token s' = next_token s) \<or>
            (r = 0 \<and> next_token s' = next_token s + 1 \<and>
             (\<exists>d. deferred s' = deferred s @ [(next_token s, d, Tdm_loop_callback)])))"
proof -
  from inv have c: "cursor_ok s" and nf: "\<not> play_finished s" and m: "MACRO_current_state s = STATE_looping"
    and so: "slot_ok K s"
    by (simp_all add: looping_inv_def)
  from tdm_play_total [OF c nf] obtain s1 where p: "tdm_play s = Some s1" and post: "play_post s s1"
    by blast
  from post so have so1: "slot_ok K s1"
    by (simp add: play_post_def slot_ok_def)
  show ?thesis
  proof (cases "play_finished s1")
    case True
    with p have "tdm_loop_callback K s = Some (TDM_DEBOUNCE_DELAY, tdm_reset_iterator K s1)"
      by (simp add: tdm_loop_callback_def)
    moreover from True post m so1 have
      "MACRO_current_state (tdm_reset_iterator K s1) = STATE_looping"
      "cursor_ok (tdm_reset_iterator K s1)" "slot_ok K (tdm_reset_iterator K s1)"
      "deferred (tdm_reset_iterator K s1) = deferred s"
      "next_token (tdm_reset_iterator K s1) = next_token s"
      by (simp_all add: play_post_def cursor_ok_reset slot_ok_def)
    ultimately show ?thesis
      by (simp add: TDM_DEBOUNCE_DELAY_def)
  next
    case False
    with p have "tdm_loop_callback K s = Some (0, s1)"
      by (simp add: tdm_loop_callback_def)
    with False post m so1 show ?thesis
      by (simp add: play_post_def)
  qed
qed

lemma cancel_fields [simp]:
  "MACRO_current_state (cancel_deferred_exec t s) = MACRO_current_state s"
  "MACRO_ends (cancel_deferred_exec t s) = MACRO_ends s"
  "MACRO_id (cancel_deferred_exec t s) = MACRO_id s"
  "MACRO_direction (cancel_deferred_exec t s) = MACRO_direction s"
  "MACRO_end (cancel_deferred_exec t s) = MACRO_end s"
  "MACRO_iterator (cancel_deferred_exec t s) = MACRO_iterator s"
  "next_token (cancel_deferred_exec t s) = next_token s"
  "play_finished (cancel_deferred_exec t s) = play_finished s"
  "deferred (cancel_deferred_exec t s) = filter (\<lambda>e. fst e \<noteq> t) (deferred s)"
  by (simp_all add: cancel_deferred_exec_def)

lemma expire_inv:
  assumes inv: "looping_inv K s"
  shows "\<exists>s'. deferred_expire K t s = Some s' \<and> looping_inv K s'"
proof (cases "map_of (deferred s) t")
  case None
  with inv show ?thesis
    by (simp add: deferred_expire_def)
next
  case (Some dc)
  obtain d cb where dc: "dc = (d, cb)" by (cases dc)
  from Some dc have mem: "(t, d, cb) \<in> set (deferred s)"
    by (simp add: map_of_SomeD)
  from inv have all: "list_all (\<lambda>e. snd (snd e) = Tdm_loop_callback \<and> fst e < next_token s) (deferred s)"
    by (simp add: looping_inv_def)
  with mem have cb: "cb = Tdm_loop_callback" and fresh: "t < next_token s"
    by (auto simp add: list_all_iff)
  from loop_callback_inv [OF inv] obtain r s1 where
    run: "tdm_loop_callback K s = Some (r, s1)" and
    keep: "MACRO_current_state s1 = STATE_looping" "cursor_ok s1" "slot_ok K s1" "\<not> play_finished s1" and
    alt: "(r \<noteq> 0 \<and> deferred s1 = deferred s \<and> next_token s1 = next_token s) \<or>
          (r = 0 \<and> next_token s1 = next_token s + 1 \<and>
           (\<exists>d. deferred s1 = deferred s @ [(next_token s, d, Tdm_loop_callback)]))"
    by blast
  from alt show ?thesis
  proof
    assume a: "r \<noteq> 0 \<and> deferred s1 = deferred s \<and> next_token s1 = next_token s"
    let ?s' = "s1\<lparr>deferred := map (\<lambda>e. if fst e = t then (t, r, snd (snd e)) else e) (deferred s1)\<rparr>"
    from Some dc cb run a have "deferred_expire K t s = Some ?s'"
      by (simp add: deferred_expire_def run_callback_def)
    moreover from inv a keep all fresh have "looping_inv K ?s'"
      by (auto simp add: looping_inv_def cursor_ok_def slot_ok_def list_all_iff)
    ultimately show ?thesis by blast
  next
    assume a: "r = 0 \<and> next_token s1 = next_token s + 1 \<and>
           (\<exists>d. deferred s1 = deferred s @ [(next_token s, d, Tdm_loop_callback)])"
    then obtain d' where d': "deferred s1 = deferred s @ [(next_token s, d', Tdm_loop_callback)]"
      by blast
    from Some dc cb run a have "deferred_expire K t s = Some (cancel_deferred_exec t s1)"
      by (simp add: deferred_expire_def run_callback_def)
    moreover from a d' keep all fresh have "looping_inv K (cancel_deferred_exec t s1)"
      by (auto simp add: looping_inv_def cursor_ok_def slot_ok_def list_all_iff)
    ultimately show ?thesis by blast
  qed
qed


lemma clear_tokens_fields [simp]:
  "MACRO_current_state (tdm_clear_tokens s) = MACRO_current_state s"
  "MACRO_ends (tdm_clear_tokens s) = MACRO_ends s"
  "MACRO_id (tdm_clear_tokens s) = MACRO_id s"
  "next_token (tdm_clear_tokens s) = next_token s"
  by (simp_all add: tdm_clear_tokens_def cancel_deferred_exec_def Let_def)

lemma clear_tokens_deferred: "set (deferred (tdm_clear_tokens s)) \<subseteq> set (deferred s)"
  by (auto simp add: tdm_clear_tokens_def cancel_deferred_exec_def Let_def)

lemma loop_start_inv:
  assumes "slot_ok K s"
    and "list_all (\<lambda>e. snd (snd e) = Tdm_loop_callback \<and> fst e < next_token s) (deferred s)"
  shows "looping_inv K (tdm_loop_start K (s\<lparr>MACRO_current_state := STATE_looping\<rparr>))"
proof -
  let ?s = "s\<lparr>MACRO_current_state := STATE_looping\<rparr>"
  define s2 where "s2 = (if play_token (tdm_play_user ?s) \<noteq> INVALID_DEFERRED_TOKEN
                         then tdm_clear_tokens (tdm_play_user ?s) else tdm_play_user ?s)"
  have f: "MACRO_current_state s2 = STATE_looping" "MACRO_ends s2 = MACRO_ends s"
    "MACRO_id s2 = MACRO_id s" "next_token s2 = next_token s"
    by (simp_all add: s2_def tdm_play_user_def)
  have sub: "set (deferred s2) \<subseteq> set (deferred s)"
    using clear_tokens_deferred [of ?s] by (auto simp add: s2_def tdm_play_user_def)
  from assms(1) f have so: "slot_ok K s2"
    by (simp add: slot_ok_def)
  have eq: "tdm_loop_start K ?s =
      (tdm_reset_iterator K s2)\<lparr>deferred := deferred s2 @ [(next_token s2, TDM_DEBOUNCE_DELAY, Tdm_loop_callback)],
                                next_token := next_token s2 + 1, play_token := next_token s2\<rparr>"
    by (simp add: tdm_loop_start_def s2_def Let_def defer_exec_def)
  from cursor_ok_reset [OF so] have "cursor_ok (tdm_reset_iterator K s2)" .
  then have c: "cursor_ok (tdm_loop_start K ?s)"
    unfolding eq by (simp add: cursor_ok_def)
  from so have so': "slot_ok K (tdm_loop_start K ?s)"
    unfolding eq by (simp add: slot_ok_def)
  from assms(2) sub f have all:
    "list_all (\<lambda>e. snd (snd e) = Tdm_loop_callback \<and> fst e < next_token s + 1)
       (deferred s2 @ [(next_token s2, TDM_DEBOUNCE_DELAY, Tdm_loop_callback)])"
    by (fastforce simp add: list_all_iff less_Suc_eq)
  from c so' all f show ?thesis
    unfolding looping_inv_def eq by simp
qed

lemma looping_transition_inv:
  assumes inv: "looping_inv K s" and ns: "next_state \<noteq> STATE_idle"
  shows "\<exists>b s'. tdm_state_transition K next_state s = Some (b, s') \<and> looping_inv K s'"
proof (cases "next_state = STATE_looping")
  case True
  from inv have m: "MACRO_current_state s = STATE_looping" and so: "slot_ok K s"
    and all: "list_all (\<lambda>e. snd (snd e) = Tdm_loop_callback \<and> fst e < next_token s) (deferred s)"
    by (simp_all add: looping_inv_def)
  from m True have "tdm_state_transition K next_state s =
      Some (True, tdm_loop_start K (s\<lparr>MACRO_current_state := STATE_looping\<rparr>))"
    by (simp add: tdm_state_transition_call transition_matrix_eq_spec spec_transition_table_def
        call_transition_def)
  with loop_start_inv [OF so all] show ?thesis by blast
next
  case False
  from inv have m: "MACRO_current_state s = STATE_looping"
    by (simp add: looping_inv_def)
  with False ns have "tdm_state_transition K next_state s = Some (False, tdm_invalid_transition next_state s)"
    by (cases next_state)
       (simp_all add: tdm_state_transition_call transition_matrix_eq_spec spec_transition_table_def)
  moreover from inv have "looping_inv K (tdm_invalid_transition next_state s)"
    by (simp add: looping_inv_def tdm_invalid_transition_def cursor_ok_def slot_ok_def)
  ultimately show ?thesis by blast
qed

lemma key_inv:
  assumes inv: "looping_inv K s" and ns: "\<not> stop_request K (Key kc pressed)"
  shows "\<exists>s'. tdm_step K (Key kc pressed) s = Some s' \<and> looping_inv K s'"
proof -
  from inv have m: "MACRO_current_state s = STATE_looping"
    by (simp add: looping_inv_def)
  show ?thesis
  proof (cases "tdm_is_control_key K kc \<and> \<not> pressed")
    case True
    with ns have "keycode_to_state K kc \<noteq> STATE_idle"
      by (simp add: stop_request_def)
    from looping_transition_inv [OF inv this] obtain b s' where
      "tdm_state_transition K (keycode_to_state K kc) s = Some (b, s')" "looping_inv K s'"
      by blast
    with True show ?thesis
      by (simp add: tdm_step_def process_temporal_dynamic_macro_def)
  next
    case False
    with m have "tdm_step K (Key kc pressed) s = Some s"
      by (auto simp add: tdm_step_def process_temporal_dynamic_macro_def)
    with inv show ?thesis by simp
  qed
qed

lemma step_inv:
  assumes "looping_inv K s" and "\<not> stop_request K i"
  shows "\<exists>s'. tdm_step K i s = Some s' \<and> looping_inv K s'"
proof (cases i)
  case (Key kc pressed)
  with assms key_inv show ?thesis by simp
next
  case (Expire t)
  with expire_inv [OF assms(1), of t] show ?thesis
    by (simp add: tdm_step_def)
qed

lemma run_inv:
  "looping_inv K s \<Longrightarrow> list_all (\<lambda>i. \<not> stop_request K i) inputs \<Longrightarrow>
   \<exists>s'. tdm_run K inputs s = Some s' \<and> looping_inv K s'"
proof (induction inputs arbitrary: s)
  case Nil
  then show ?case by simp
next
  case (Cons i inputs)
  from Cons.prems have "\<not> stop_request K i" and rest: "list_all (\<lambda>i. \<not> stop_request K i) inputs"
    by simp_all
  from step_inv [OF Cons.prems(1) this(1)] obtain s1 where
    s1: "tdm_step K i s = Some s1" "looping_inv K s1"
    by blast
  from Cons.IH [OF s1(2) rest] s1(1) show ?case by simp
qed

text \<open>
  C9. A macro played in looping mode never reaches the idle mode without an explicit stop.
  Start from an idle module with nothing pending in the scheduler and a slot whose end can
  be reached from its start, and release the loop key. Then, whatever follows (expiries of
  pending executors, in any order and number, and key events other than the release of
  the end key), every call returns, the mode is looping afterwards, and an executor is
  still pending: the completion of a round registers the next one. Since this holds for
  every sequence of such inputs, it holds after each of its prefixes. The macro may hold
  any number of delays.
\<close>

theorem looping_never_idle:
  assumes idle: "MACRO_current_state s = STATE_idle"
    and nothing_pending: "deferred s = []"
    and slot: "slot_ok K s"
    and loop_key: "uint kc = TDM_LOOP K"
    and no_stop: "list_all (\<lambda>i. \<not> stop_request K i) inputs"
  shows "\<exists>s'. tdm_run K (Key kc False # inputs) s = Some s' \<and>
              MACRO_current_state s' = STATE_looping \<and> deferred s' \<noteq> []"
proof -
  from loop_key have ctl: "tdm_is_control_key K kc" and st: "keycode_to_state K kc = STATE_looping"
    by (simp_all add: tdm_is_control_key_def keycode_to_state_def TDM_LOOP_def TDM_RECORD_def
        TDM_DELAY_def TDM_END_def TDM_PLAY_def)
  from nothing_pending have "list_all (\<lambda>e. snd (snd e) = Tdm_loop_callback \<and> fst e < next_token s) (deferred s)"
    by simp
  from loop_start_inv [OF slot this]
  have inv: "looping_inv K (tdm_loop_start K (s\<lparr>MACRO_current_state := STATE_looping\<rparr>))" .
  from idle have "tdm_state_transition K STATE_looping s =
      Some (True, tdm_loop_start K (s\<lparr>MACRO_current_state := STATE_looping\<rparr>))"
    by (simp add: tdm_state_transition_call transition_matrix_eq_spec spec_transition_table_def
        call_transition_def)
  with ctl st have "tdm_step K (Key kc False) s =
      Some (tdm_loop_start K (s\<lparr>MACRO_current_state := STATE_looping\<rparr>))"
    by (simp add: tdm_step_def process_temporal_dynamic_macro_def)
  moreover from run_inv [OF inv no_stop] obtain s' where
    "tdm_run K inputs (tdm_loop_start K (s\<lparr>MACRO_current_state := STATE_looping\<rparr>)) = Some s'"
    "looping_inv K s'"
    by blast
  ultimately show ?thesis
    by (simp add: looping_inv_def)
qed


theorem looping_never_idle_witness:
  "\<exists>s s'. tdm_run qmk_config
            [REC, Key 4 True, Key 4 False, DELAY, Key 30 True, Key 30 False, Key 34 True,
             Key 34 False, Key 39 True, Key 39 False, REC, Key 5 True, Key 5 False, END]
            (boot qmk_config) = Some s \<and>
       MACRO_current_state s = STATE_idle \<and> deferred s = [] \<and> slot_ok qmk_config s \<and>
       delay_ms (MACRO_buffers s 2) = 150 \<and>
       tdm_run qmk_config
         [LOOP, Expire 1, Expire 2, Expire 2, Expire 3, Key 4 True, LOOP, Expire 5] s = Some s' \<and>
       MACRO_current_state s' = STATE_looping \<and> deferred s' \<noteq> []"
proof -
  define r where "r = tdm_run qmk_config
            [REC, Key 4 True, Key 4 False, DELAY, Key 30 True, Key 30 False, Key 34 True,
             Key 34 False, Key 39 True, Key 39 False, REC, Key 5 True, Key 5 False, END]
            (boot qmk_config)"
  have a: "map_option MACRO_current_state r = Some STATE_idle"
    unfolding r_def by code_simp
  have b: "map_option deferred r = Some []"
    unfolding r_def by code_simp
  have c: "map_option (slot_ok qmk_config) r = Some True"
    unfolding r_def by code_simp
  have d: "map_option (record_at 2) r = Some \<lparr>keycode = 5, delay_ms = 150, flags = 1\<rparr>"
    unfolding r_def by code_simp
  from a obtain s where s: "r = Some s" by auto
  with a b c d have f: "MACRO_current_state s = STATE_idle" "deferred s = []" "slot_ok qmk_config s"
    "delay_ms (MACRO_buffers s 2) = 150"
    by (simp_all add: record_at_def)
  have k: "uint (0x7E46 :: 16 word) = TDM_LOOP qmk_config"
    by (simp add: TDM_LOOP_def qmk_config_def)
  have n: "list_all (\<lambda>i. \<not> stop_request qmk_config i)
             [Expire 1, Expire 2, Expire 2, Expire 3, Key 4 True, LOOP, Expire 5]"
    by code_simp
  from looping_never_idle [OF f(1) f(2) f(3) k n] obtain s' where
    "tdm_run qmk_config [LOOP, Expire 1, Expire 2, Expire 2, Expire 3, Key 4 True, LOOP, Expire 5] s = Some s'"
    "MACRO_current_state s' = STATE_looping" "deferred s' \<noteq> []"
    unfolding LOOP_def by blast
  with s f show ?thesis
    unfolding r_def by blast
qed


end
